theory Spec2Isabelle
  imports Main "HOL-Library.AList" "HOL-Library.Word"
begin

text \<open>
  A model of the caching proxy of \<^verbatim>\<open>src/index.js\<close>: the class \<^verbatim>\<open>CachingProxy\<close> with its
  methods \<^verbatim>\<open>generateCacheKey\<close>, \<^verbatim>\<open>saveCache\<close>, \<^verbatim>\<open>loadCache\<close>, \<^verbatim>\<open>clearCache\<close> and \<^verbatim>\<open>start\<close>
  (whose middleware is the request handler), and the command line that starts it. The
  state the methods change (the cache, the snapshot file, the origin server) is passed
  explicitly, and a thrown error is a value. The libraries the program calls (the cache,
  the HTTP client, JSON, the file system, the digest) are modelled as far as the program
  uses them.
\<close>

section \<open>Values of the host language\<close>

text \<open>
  A response payload and a cached value are JSON values. Numbers are integers here;
  the fractional part of a JavaScript number plays no role in the pipeline.
\<close>

datatype json =
    JNull
  | JBool bool
  | JNum int
  | JStr string
  | JArr "json list"
  | JObj "(string \<times> json) list"

text \<open>JavaScript truthiness, as tested by \<^verbatim>\<open>if (x)\<close>: \<^verbatim>\<open>null\<close>, \<^verbatim>\<open>false\<close>, \<^verbatim>\<open>0\<close> and
  the empty string are falsy, every array and object is truthy.\<close>

fun truthy :: "json \<Rightarrow> bool" where
  "truthy JNull = False"
| "truthy (JBool b) = b"
| "truthy (JNum n) = (n \<noteq> 0)"
| "truthy (JStr s) = (s \<noteq> [])"
| "truthy (JArr xs) = True"
| "truthy (JObj kvs) = True"

text \<open>A variable that may hold \<^verbatim>\<open>undefined\<close> is an option; \<^verbatim>\<open>undefined\<close> is falsy.\<close>

fun truthy_opt :: "json option \<Rightarrow> bool" where
  "truthy_opt None = False"
| "truthy_opt (Some x) = truthy x"

text \<open>Decimal rendering of a number, as in a template string or an array index.\<close>

fun dec :: "nat \<Rightarrow> string" where
  "dec n = (if n < 10 then [''0123456789'' ! n] else dec (n div 10) @ [''0123456789'' ! (n mod 10)])"

declare dec.simps [simp del]

text \<open>
  A text is represented by what \<^verbatim>\<open>JSON.parse\<close> makes of it: either the value it parses
  to, or nothing, when \<^verbatim>\<open>JSON.parse\<close> throws a SyntaxError. \<^verbatim>\<open>JSON.stringify\<close> of a value
  is the text that parses back to that value.
\<close>

datatype jtext = Stringified json | Unparseable

record js_error =
  message :: string
  response_status :: "nat option"

definition JSON_stringify :: "json \<Rightarrow> jtext" where
  "JSON_stringify x = Stringified x"

definition JSON_parse :: "jtext \<Rightarrow> js_error + json" where
  "JSON_parse s =
     (case s of
        Stringified x \<Rightarrow> Inr x
      | Unparseable \<Rightarrow> Inl \<lparr>message = ''Unexpected token'', response_status = None\<rparr>)"

text \<open>An object under construction may hold \<^verbatim>\<open>undefined\<close> under a key; \<^verbatim>\<open>JSON.stringify\<close>
  leaves such properties out.\<close>

definition JSON_stringify_object :: "(string \<times> json option) list \<Rightarrow> jtext" where
  "JSON_stringify_object obj =
     JSON_stringify (JObj (List.map_filter (\<lambda>(k, x). map_option (Pair k) x) obj))"

text \<open>\<^verbatim>\<open>Object.entries\<close>: the own properties of an object; the indexed elements of an array
  or of a string; nothing for a number or a boolean; a TypeError for \<^verbatim>\<open>null\<close>.\<close>

definition Object_entries :: "json \<Rightarrow> js_error + (string \<times> json) list" where
  "Object_entries x =
     (case x of
        JObj kvs \<Rightarrow> Inr kvs
      | JArr xs \<Rightarrow> Inr (zip (map dec [0..<length xs]) xs)
      | JStr s \<Rightarrow> Inr (zip (map dec [0..<length s]) (map (\<lambda>c. JStr [c]) s))
      | JNum n \<Rightarrow> Inr []
      | JBool b \<Rightarrow> Inr []
      | JNull \<Rightarrow>
          Inl \<lparr>message = ''Cannot convert undefined or null to object'',
               response_status = None\<rparr>)"

section \<open>The cache library\<close>

text \<open>
  The store is a \<^verbatim>\<open>NodeCache\<close>: a table from key to a value \<^verbatim>\<open>v\<close> and an expiry time \<^verbatim>\<open>t\<close>
  in milliseconds, \<^verbatim>\<open>0\<close> meaning no expiry. \<^verbatim>\<open>set\<close> without a ttl argument uses the
  \<^verbatim>\<open>stdTTL\<close> option (in seconds) the cache was built with. \<^verbatim>\<open>get\<close> gives \<^verbatim>\<open>undefined\<close> for a
  missing key and for an entry whose expiry time has passed. The library's removal of
  expired entries from the table is not observable through \<^verbatim>\<open>get\<close> and is left out.
\<close>

type_synonym time = int

record entry =
  entry_v :: json
  entry_t :: time

record NodeCache =
  stdTTL :: int
  entries :: "(string \<times> entry) list"

definition new_NodeCache :: "int \<Rightarrow> NodeCache" where
  "new_NodeCache ttl_seconds = \<lparr>stdTTL = ttl_seconds, entries = []\<rparr>"

definition NodeCache_get :: "NodeCache \<Rightarrow> time \<Rightarrow> string \<Rightarrow> json option" where
  "NodeCache_get c now key =
     (case map_of (entries c) key of
        None \<Rightarrow> None
      | Some e \<Rightarrow> if entry_t e \<noteq> 0 \<and> entry_t e < now then None else Some (entry_v e))"

definition NodeCache_set :: "NodeCache \<Rightarrow> time \<Rightarrow> string \<Rightarrow> json \<Rightarrow> NodeCache" where
  "NodeCache_set c now key x =
     c\<lparr>entries :=
         AList.update key
           \<lparr>entry_v = x, entry_t = (if stdTTL c = 0 then 0 else now + stdTTL c * 1000)\<rparr>
           (entries c)\<rparr>"

definition NodeCache_keys :: "NodeCache \<Rightarrow> string list" where
  "NodeCache_keys c = map fst (entries c)"

definition NodeCache_flushAll :: "NodeCache \<Rightarrow> NodeCache" where
  "NodeCache_flushAll c = c\<lparr>entries := []\<rparr>"

section \<open>Requests, responses and the world\<close>

text \<open>The inbound request, as far as the proxy reads it. The record is extensible: a
  request has more fields (a body, a remote address) than the three the proxy uses.\<close>

record req =
  "method" :: string
  url :: string
  headers :: "(string \<times> string) list"

text \<open>The configuration object handed to \<^verbatim>\<open>axios\<close>: what is sent upstream.\<close>

record axios_config =
  cfg_method :: string
  cfg_url :: string
  cfg_headers :: "(string \<times> string) list"

text \<open>What the origin does with a request: no response at all, or a status and a body.\<close>

datatype upstream_result = NetworkError string | Response nat json

record axios_response =
  status :: nat
  data :: json

text \<open>What the proxy sends to its client: the status, the \<^verbatim>\<open>X-Cache\<close> header and the body.\<close>

record response =
  res_status :: nat
  res_x_cache :: "string option"
  res_body :: json

datatype snapshot_file = Absent | Unreadable | Content jtext

text \<open>The effects of the program, in the order they happen.\<close>

datatype event =
    Forwarded axios_config
  | CacheSet string json
  | FileWritten jtext
  | FileUnlinked
  | ConsoleError string
  | ConsoleLog string
  | Responded response

text \<open>
  The state the program runs in: its cache, the snapshot file at \<^verbatim>\<open>cacheFilePath\<close>, the
  state of the origin server, and the effects so far. A file is absent, or exists but
  cannot be read, or has a content. The file system accepts changes (\<open>writable\<close>) or
  refuses them all (missing permissions, a read-only or full disk): then writing and
  unlinking the file throw, and change nothing.
\<close>

record 'u world =
  cache :: NodeCache
  snapshot :: snapshot_file
  writable :: bool
  upstream :: 'u
  events :: "event list"

text \<open>
  The libraries the program calls and that are not part of it: the MD5 digest of a text,
  the host of a URL (\<^verbatim>\<open>new URL(origin).host\<close>, which throws a TypeError on an invalid URL),
  and the origin server behind \<^verbatim>\<open>axios\<close>, a state machine answering each request.
\<close>

record 'u platform =
  md5 :: "jtext \<Rightarrow> 128 word"
  URL_host :: "string \<Rightarrow> string option"
  origin_server :: "'u \<Rightarrow> axios_config \<Rightarrow> upstream_result \<times> 'u"

definition emit :: "event \<Rightarrow> 'u world \<Rightarrow> 'u world" where
  "emit e w = w\<lparr>events := events w @ [e]\<rparr>"

text \<open>\<^verbatim>\<open>digest("hex")\<close>: the sixteen bytes of the digest, two lower-case hex digits each.\<close>

definition hex_digit :: "nat \<Rightarrow> char" where
  "hex_digit n = ''0123456789abcdef'' ! (n mod 16)"

definition digest_hex :: "128 word \<Rightarrow> string" where
  "digest_hex d = map (\<lambda>i. hex_digit (unat (take_bit 4 (drop_bit (4 * i) d)))) (rev [0..<32])"

definition existsSync :: "'u world \<Rightarrow> bool" where
  "existsSync w = (snapshot w \<noteq> Absent)"

text \<open>The errors of the file system: no permission (standing for every refusal of the
  file system), and no such file.\<close>

definition EACCES :: js_error where
  "EACCES = \<lparr>message = ''EACCES: permission denied'', response_status = None\<rparr>"

definition ENOENT :: js_error where
  "ENOENT = \<lparr>message = ''ENOENT: no such file or directory'', response_status = None\<rparr>"

definition readFileSync :: "'u world \<Rightarrow> js_error + jtext" where
  "readFileSync w =
     (case snapshot w of
        Content s \<Rightarrow> Inr s
      | Unreadable \<Rightarrow> Inl EACCES
      | Absent \<Rightarrow> Inl ENOENT)"

text \<open>\<^verbatim>\<open>fs.writeFileSync\<close> creates or replaces the file, or throws.\<close>

definition writeFileSync :: "jtext \<Rightarrow> 'u world \<Rightarrow> js_error + 'u world" where
  "writeFileSync s w =
     (if writable w then Inr (emit (FileWritten s) (w\<lparr>snapshot := Content s\<rparr>))
      else Inl EACCES)"

text \<open>\<^verbatim>\<open>fs.unlinkSync\<close> removes the file, or throws: when there is no file, and when the file
  system refuses.\<close>

definition unlinkSync :: "'u world \<Rightarrow> js_error + 'u world" where
  "unlinkSync w =
     (case snapshot w of
        Absent \<Rightarrow> Inl ENOENT
      | _ \<Rightarrow> if writable w then Inr (emit FileUnlinked (w\<lparr>snapshot := Absent\<rparr>)) else Inl EACCES)"

definition cache_set :: "time \<Rightarrow> string \<Rightarrow> json \<Rightarrow> 'u world \<Rightarrow> 'u world" where
  "cache_set now key x w =
     emit (CacheSet key x) (w\<lparr>cache := NodeCache_set (cache w) now key x\<rparr>)"

text \<open>
  \<^verbatim>\<open>axios(config)\<close>: the request goes to the origin; the promise resolves with the response
  when \<^verbatim>\<open>validateStatus\<close> accepts its status, and rejects with an error carrying the response
  otherwise; it rejects with an error without a response when the origin cannot be reached.
\<close>

definition settle :: "(nat \<Rightarrow> bool) \<Rightarrow> upstream_result \<Rightarrow> js_error + axios_response" where
  "settle validateStatus r =
     (case r of
        NetworkError msg \<Rightarrow> Inl \<lparr>message = msg, response_status = None\<rparr>
      | Response s d \<Rightarrow>
          if validateStatus s then Inr \<lparr>status = s, data = d\<rparr>
          else Inl \<lparr>message = ''Request failed with status code '' @ dec s,
                     response_status = Some s\<rparr>)"

definition axios ::
  "'u platform \<Rightarrow> (nat \<Rightarrow> bool) \<Rightarrow> axios_config \<Rightarrow> 'u world \<Rightarrow> (js_error + axios_response) \<times> 'u world"
where
  "axios P validateStatus config w =
     (case origin_server P (upstream w) config of
        (r, u') \<Rightarrow> (settle validateStatus r, emit (Forwarded config) (w\<lparr>upstream := u'\<rparr>)))"

text \<open>The default of \<^verbatim>\<open>validateStatus\<close> in axios.\<close>

definition default_validateStatus :: "nat \<Rightarrow> bool" where
  "default_validateStatus s = (s \<ge> 200 \<and> s < 300)"

section \<open>The program\<close>

text \<open>The constructor: a cache with \<^verbatim>\<open>stdTTL: 3600\<close>. The proxy is created in an
  environment: the snapshot file \<open>f\<close> on a file system that accepts changes or not (\<open>wr\<close>),
  and the origin server in state \<open>u\<close>.\<close>

definition CachingProxy :: "snapshot_file \<Rightarrow> bool \<Rightarrow> 'u \<Rightarrow> 'u world" where
  "CachingProxy f wr u =
     \<lparr>cache = new_NodeCache 3600, snapshot = f, writable = wr, upstream = u, events = []\<rparr>"

definition generateCacheKey :: "('u, 'p) platform_scheme \<Rightarrow> 'a req_scheme \<Rightarrow> string" where
  "generateCacheKey P r =
     (let keyData =
        JObj [(''method'', JStr (method r)),
              (''url'', JStr (url r)),
              (''headers'', JObj (map (\<lambda>(k, x). (k, JStr x)) (headers r)))]
      in digest_hex (md5 P (JSON_stringify keyData)))"

text \<open>\<^verbatim>\<open>saveCache\<close> throws when the write does.\<close>

definition saveCache :: "time \<Rightarrow> 'u world \<Rightarrow> js_error + 'u world" where
  "saveCache now w =
     (let cacheData =
        foldl (\<lambda>acc key. AList.update key (NodeCache_get (cache w) now key) acc) []
          (NodeCache_keys (cache w))
      in writeFileSync (JSON_stringify_object cacheData) w)"

definition loadCache :: "time \<Rightarrow> 'u world \<Rightarrow> 'u world" where
  "loadCache now w =
     (if existsSync w then
        (case readFileSync w of
           Inl error \<Rightarrow> emit (ConsoleError ''Error loading cache:'') w
         | Inr s \<Rightarrow>
             (case JSON_parse s of
                Inl error \<Rightarrow> emit (ConsoleError ''Error loading cache:'') w
              | Inr cacheData \<Rightarrow>
                  (case Object_entries cacheData of
                     Inl error \<Rightarrow> emit (ConsoleError ''Error loading cache:'') w
                   | Inr kvs \<Rightarrow> foldl (\<lambda>w' (key, x). cache_set now key x w') w kvs)))
      else w)"

text \<open>\<^verbatim>\<open>clearCache\<close> has no \<^verbatim>\<open>try\<close>: it throws when \<^verbatim>\<open>unlinkSync\<close> does.\<close>

definition clearCache :: "'u world \<Rightarrow> js_error + 'u world" where
  "clearCache w =
     (let w1 = w\<lparr>cache := NodeCache_flushAll (cache w)\<rparr> in
      case (if existsSync w1 then unlinkSync w1 else Inr w1) of
        Inl error \<Rightarrow> Inl error
      | Inr w2 \<Rightarrow> Inr (emit (ConsoleLog ''Cache cleared successfully.'') w2))"

text \<open>\<^verbatim>\<open>res.json(body)\<close> after \<^verbatim>\<open>res.set("X-Cache", x)\<close> and \<^verbatim>\<open>res.status(s)\<close>.\<close>

definition res_json :: "nat \<Rightarrow> string option \<Rightarrow> json \<Rightarrow> 'u world \<Rightarrow> response option \<times> 'u world" where
  "res_json s x body w =
     (Some \<lparr>res_status = s, res_x_cache = x, res_body = body\<rparr>,
      emit (Responded \<lparr>res_status = s, res_x_cache = x, res_body = body\<rparr>) w)"

text \<open>The value of a variable when it is truthy: what \<^verbatim>\<open>if (cachedResponse)\<close> lets through.\<close>

definition truthy_value :: "json option \<Rightarrow> json option" where
  "truthy_value x = (case x of None \<Rightarrow> None | Some c \<Rightarrow> if truthy c then Some c else None)"

text \<open>The copy of the inbound headers made at the start of the \<^verbatim>\<open>try\<close> block, with
  \<^verbatim>\<open>if-none-match\<close> and \<^verbatim>\<open>if-modified-since\<close> deleted.\<close>

definition stripped_headers :: "'a req_scheme \<Rightarrow> (string \<times> string) list" where
  "stripped_headers r =
     AList.delete ''if-modified-since'' (AList.delete ''if-none-match'' (headers r))"

text \<open>The request object built for \<^verbatim>\<open>axios\<close>: the method of the inbound request, the origin
  followed by its target, and the given headers with \<^verbatim>\<open>host\<close> set to the host of the
  origin.\<close>

definition request_config ::
  "string \<Rightarrow> 'a req_scheme \<Rightarrow> (string \<times> string) list \<Rightarrow> string \<Rightarrow> axios_config"
where
  "request_config origin r hdrs host =
     \<lparr>cfg_method = method r, cfg_url = origin @ url r,
      cfg_headers = AList.update ''host'' host hdrs\<rparr>"

text \<open>The \<^verbatim>\<open>validateStatus\<close> of the first request: 2xx or 304.\<close>

definition validateStatus :: "nat \<Rightarrow> bool" where
  "validateStatus s = ((s \<ge> 200 \<and> s < 300) \<or> s = 304)"

text \<open>
  The \<^verbatim>\<open>try\<close> block of the request handler, entered when the lookup gave nothing truthy.
  It ends with a reply, with no reply at all (\<open>Inr None\<close>, when none of its branches is
  taken), or with a thrown error (\<open>Inl\<close>), which comes with the \<^verbatim>\<open>X-Cache\<close> header set on the
  response so far: \<^verbatim>\<open>res.set("X-Cache", "MISS")\<close> runs before \<^verbatim>\<open>cache.set\<close> and \<^verbatim>\<open>saveCache\<close>.
  The first request is built from the inbound headers \<^verbatim>\<open>req.headers\<close>; only the second one
  is built from the stripped copy.
\<close>

definition try_block ::
  "'u platform \<Rightarrow> string \<Rightarrow> time \<Rightarrow> 'a req_scheme \<Rightarrow> string \<Rightarrow> json option \<Rightarrow> 'u world
     \<Rightarrow> (js_error \<times> string option + response option) \<times> 'u world"
where
  "try_block P origin now r cacheKey cachedResponse w =
     (let hdrs = stripped_headers r in
      case URL_host P origin of
        None \<Rightarrow> (Inl (\<lparr>message = ''Invalid URL'', response_status = None\<rparr>, None), w)
      | Some host \<Rightarrow>
          (case axios P validateStatus (request_config origin r (headers r) host) w of
             (Inl error, w1) \<Rightarrow> (Inl (error, None), w1)
           | (Inr resp, w1) \<Rightarrow>
               (case (if status resp = 304 then truthy_value cachedResponse else None) of
                  Some c \<Rightarrow>
                    (case res_json 200 (Some ''HIT'') c w1 of (reply, w2) \<Rightarrow> (Inr reply, w2))
                | None \<Rightarrow>
                    if truthy (data resp) then
                      (let w2 = cache_set now cacheKey (data resp) w1 in
                       case saveCache now w2 of
                         Inl error \<Rightarrow> (Inl (error, Some ''MISS''), w2)
                       | Inr w3 \<Rightarrow>
                           (case res_json 200 (Some ''MISS'') (data resp) w3 of
                              (reply, w4) \<Rightarrow> (Inr reply, w4)))
                    else if status resp = 304 \<and> \<not> truthy_opt cachedResponse then
                      (case axios P default_validateStatus (request_config origin r hdrs host) w1 of
                         (Inl error, w2) \<Rightarrow> (Inl (error, None), w2)
                       | (Inr freshResponse, w2) \<Rightarrow>
                           (let w3 = cache_set now cacheKey (data freshResponse) w2 in
                            case saveCache now w3 of
                              Inl error \<Rightarrow> (Inl (error, Some ''MISS''), w3)
                            | Inr w4 \<Rightarrow>
                                (case res_json 200 (Some ''MISS'') (data freshResponse) w4 of
                                   (reply, w5) \<Rightarrow> (Inr reply, w5))))
                    else (Inr None, w1))))"

text \<open>\<^verbatim>\<open>error.response?.status || 500\<close>: the status of the error's response when there is one
  (and it is not \<^verbatim>\<open>0\<close>), else 500.\<close>

definition status_or_500 :: "js_error \<Rightarrow> nat" where
  "status_or_500 error =
     (case response_status error of None \<Rightarrow> 500 | Some s \<Rightarrow> if s = 0 then 500 else s)"

definition failure_body :: "js_error \<Rightarrow> json" where
  "failure_body error =
     JObj [(''error'', JStr ''Proxy request failed''), (''details'', JStr (message error))]"

text \<open>The \<^verbatim>\<open>catch\<close> block of the request handler; \<open>x_cache\<close> is the \<^verbatim>\<open>X-Cache\<close> header the
  \<^verbatim>\<open>try\<close> block had set when the error was thrown.\<close>

definition catch_block ::
  "json option \<Rightarrow> string option \<Rightarrow> js_error \<Rightarrow> 'u world \<Rightarrow> response option \<times> 'u world"
where
  "catch_block cachedResponse x_cache error w =
     (let w1 = emit (ConsoleError ''Proxy error:'') w in
      case (if response_status error = Some 304 then truthy_value cachedResponse else None) of
        Some c \<Rightarrow> res_json 200 (Some ''HIT'') c w1
      | None \<Rightarrow> res_json (status_or_500 error) x_cache (failure_body error) w1)"

text \<open>The request handler registered by \<^verbatim>\<open>start\<close>, run on one request. It gives the
  reply, if any, and the world after the request. The clock is read as \<open>now\<close> throughout
  the request: the time the upstream call takes is left out.\<close>

definition handler ::
  "'u platform \<Rightarrow> string \<Rightarrow> time \<Rightarrow> 'a req_scheme \<Rightarrow> 'u world \<Rightarrow> response option \<times> 'u world"
where
  "handler P origin now r w =
     (let cacheKey = generateCacheKey P r;
          cachedResponse = NodeCache_get (cache w) now cacheKey
      in case truthy_value cachedResponse of
           Some c \<Rightarrow> res_json 200 (Some ''HIT'') c w
         | None \<Rightarrow>
             (case try_block P origin now r cacheKey cachedResponse w of
                (Inl (error, x_cache), w1) \<Rightarrow> catch_block cachedResponse x_cache error w1
              | (Inr reply, w1) \<Rightarrow> (reply, w1)))"

text \<open>The server handles the requests one after the other, each at its arrival time.\<close>

fun serve ::
  "'u platform \<Rightarrow> string \<Rightarrow> (time \<times> req) list \<Rightarrow> 'u world \<Rightarrow> response option list \<times> 'u world"
where
  "serve P origin [] w = ([], w)"
| "serve P origin ((now, r) # rs) w =
     (case handler P origin now r w of
        (reply, w1) \<Rightarrow> (case serve P origin rs w1 of (replies, w2) \<Rightarrow> (reply # replies, w2)))"

text \<open>\<^verbatim>\<open>start(port, origin)\<close> loads the snapshot and then serves.\<close>

definition start ::
  "'u platform \<Rightarrow> nat \<Rightarrow> string \<Rightarrow> time \<Rightarrow> (time \<times> req) list \<Rightarrow> 'u world
     \<Rightarrow> response option list \<times> 'u world"
where
  "start P port origin now rs w = serve P origin rs (loadCache now w)"

text \<open>The command line: \<^verbatim>\<open>--port\<close> (default 3000), \<^verbatim>\<open>--origin\<close>, \<^verbatim>\<open>--clear-cache\<close> (default
  false) and \<^verbatim>\<open>--ttl\<close>, "Cache TTL (time-to-live) in seconds" (default 60).\<close>

record argv =
  argv_port :: nat
  argv_origin :: string
  argv_clear_cache :: bool
  argv_ttl :: nat

text \<open>The main program, started at time \<open>now\<close> with the snapshot file \<open>f\<close> on disk. It ends
  with an uncaught error (\<open>Inl\<close>) when \<^verbatim>\<open>clearCache\<close> throws.\<close>

definition main ::
  "'u platform \<Rightarrow> argv \<Rightarrow> time \<Rightarrow> (time \<times> req) list \<Rightarrow> snapshot_file \<Rightarrow> bool \<Rightarrow> 'u
     \<Rightarrow> js_error + response option list \<times> 'u world"
where
  "main P args now rs f wr u =
     (let proxy = CachingProxy f wr u in
      if argv_clear_cache args then
        (case clearCache proxy of Inl error \<Rightarrow> Inl error | Inr w \<Rightarrow> Inr ([], w))
      else Inr (start P (argv_port args) (argv_origin args) now rs proxy))"

section \<open>Notions used to state the properties\<close>

text \<open>The expiry time \<^verbatim>\<open>set\<close> gives to an entry written at time \<open>now\<close>.\<close>

definition expiry :: "NodeCache \<Rightarrow> time \<Rightarrow> time" where
  "expiry c now = (if stdTTL c = 0 then 0 else now + stdTTL c * 1000)"

text \<open>The properties of the object \<^verbatim>\<open>saveCache\<close> writes: the keys of the cache with what
  \<^verbatim>\<open>get\<close> gives for them, the keys it gives nothing for left out.\<close>

definition snapshot_entries :: "time \<Rightarrow> NodeCache \<Rightarrow> (string \<times> json) list" where
  "snapshot_entries now c =
     List.map_filter (\<lambda>(k, x). map_option (Pair k) x)
       (foldl (\<lambda>acc key. AList.update key (NodeCache_get c now key) acc) [] (NodeCache_keys c))"

text \<open>The world after \<^verbatim>\<open>saveCache\<close> has written the file.\<close>

definition saved :: "time \<Rightarrow> 'u world \<Rightarrow> 'u world" where
  "saved now w =
     emit (FileWritten (JSON_stringify (JObj (snapshot_entries now (cache w)))))
       (w\<lparr>snapshot := Content (JSON_stringify (JObj (snapshot_entries now (cache w))))\<rparr>)"



text \<open>The requests sent upstream, and the entries set, in order, among a list of effects.\<close>

definition forwards :: "event list \<Rightarrow> axios_config list" where
  "forwards evs = concat (map (\<lambda>e. case e of Forwarded c \<Rightarrow> [c] | _ \<Rightarrow> []) evs)"



text \<open>
  An upstream call that fails: the origin cannot be reached, or it answers with a status
  that is neither 2xx nor 304 (a status line always carries a status that is not \<open>0\<close>).
  The error outcome for it has the status of the origin when there is one, else 500, and
  a message.
\<close>

definition upstream_failed :: "upstream_result \<Rightarrow> bool" where
  "upstream_failed res =
     (case res of
        NetworkError msg \<Rightarrow> True
      | Response s d \<Rightarrow> \<not> (200 \<le> s \<and> s < 300) \<and> s \<noteq> 304 \<and> s \<noteq> 0)"

definition failure_reply :: "upstream_result \<Rightarrow> response" where
  "failure_reply res =
     \<lparr>res_status = (case res of NetworkError msg \<Rightarrow> 500 | Response s d \<Rightarrow> s),
      res_x_cache = None,
      res_body =
        JObj [(''error'', JStr ''Proxy request failed''),
              (''details'',
               JStr (case res of
                       NetworkError msg \<Rightarrow> msg
                     | Response s d \<Rightarrow> ''Request failed with status code '' @ dec s))]\<rparr>"

text \<open>
  An origin for the examples: it answers the requests it receives with the results of a
  script, one after the other, and cannot be reached once the script is used up. The
  digest of the examples is a stand-in for MD5, and every non-empty origin is a valid URL.
\<close>

definition example_platform :: "upstream_result list platform" where
  "example_platform =
     \<lparr>md5 = (\<lambda>s. 0),
      URL_host = (\<lambda>s. if s = [] then None else Some ''origin.test''),
      origin_server =
        (\<lambda>u c. case u of [] \<Rightarrow> (NetworkError ''connect ECONNREFUSED'', []) | x # xs \<Rightarrow> (x, xs))\<rparr>"

definition example_request :: req where
  "example_request = \<lparr>method = ''GET'', url = ''/x'', headers = [(''accept'', ''*/*'')]\<rparr>"

definition conditional_request :: req where
  "conditional_request =
     \<lparr>method = ''GET'', url = ''/x'', headers = [(''if-none-match'', ''v1'')]\<rparr>"

definition example_payload :: json where
  "example_payload = JObj [(''a'', JNum 1)]"

definition example_argv :: argv where
  "example_argv =
     \<lparr>argv_port = 3000, argv_origin = ''http://origin.test'', argv_clear_cache = False,
      argv_ttl = 60\<rparr>"

section \<open>Facts about the cache and the effects\<close>

lemmas world_ops =
  emit_def writeFileSync_def unlinkSync_def cache_set_def res_json_def existsSync_def
  readFileSync_def

lemma get_set_same:
  "NodeCache_get (NodeCache_set c now k x) now' k =
     (if expiry c now \<noteq> 0 \<and> expiry c now < now' then None else Some x)"
  by (simp add: NodeCache_get_def NodeCache_set_def update_conv' expiry_def)

lemma get_set_other:
  "k' \<noteq> k \<Longrightarrow> NodeCache_get (NodeCache_set c now k x) now' k' = NodeCache_get c now' k'"
  by (simp add: NodeCache_get_def NodeCache_set_def update_conv')

lemma stdTTL_set: "stdTTL (NodeCache_set c now k x) = stdTTL c"
  by (simp add: NodeCache_set_def)

lemma get_new_NodeCache: "NodeCache_get (new_NodeCache n) now k = None"
  by (simp add: NodeCache_get_def new_NodeCache_def)

lemma saveCache_eq:
  "saveCache now w = writeFileSync (JSON_stringify (JObj (snapshot_entries now (cache w)))) w"
  by (simp add: saveCache_def snapshot_entries_def JSON_stringify_object_def)

lemma hex_digit_range: "hex_digit n \<in> set ''0123456789abcdef''"
  unfolding hex_digit_def by (rule nth_mem) simp

lemma digest_hex_length: "length (digest_hex d) = 32"
  by (simp add: digest_hex_def)

lemma digest_hex_chars: "set (digest_hex d) \<subseteq> set ''0123456789abcdef''"
  unfolding digest_hex_def using hex_digit_range by auto

subsection \<open>The object written by \<^verbatim>\<open>saveCache\<close>\<close>

lemma map_of_collect:
  "map_of (foldl (\<lambda>acc key. AList.update key (g key) acc) acc0 ks) k =
     (if k \<in> set ks then Some (g k) else map_of acc0 k)"
  by (induction ks arbitrary: acc0) (auto simp add: update_conv')

lemma distinct_collect:
  "distinct (map fst acc0) \<Longrightarrow>
   distinct (map fst (foldl (\<lambda>acc key. AList.update key (g key) acc) acc0 ks))"
  by (induction ks arbitrary: acc0) (auto simp add: distinct_update)

lemma fst_defined:
  "fst ` set (List.map_filter (\<lambda>(k, x). map_option (Pair k) x) al) \<subseteq> fst ` set al"
  by (auto simp add: map_filter_def image_iff split: prod.splits) force

lemma map_of_defined:
  "distinct (map fst al) \<Longrightarrow>
   map_of (List.map_filter (\<lambda>(k, x). map_option (Pair k) x) al) k =
     (case map_of al k of Some (Some x) \<Rightarrow> Some x | _ \<Rightarrow> None)"
proof (induction al)
  case Nil
  then show ?case by (simp add: map_filter_simps)
next
  case (Cons p al)
  obtain k1 x1 where p: "p = (k1, x1)" by (cases p)
  have notin: "map_of (List.map_filter (\<lambda>(k, x). map_option (Pair k) x) al) k1 = None"
    using Cons.prems fst_defined [of al] by (auto simp add: p map_of_eq_None_iff)
  show ?case
    using Cons notin by (cases x1) (auto simp add: p map_filter_simps)
qed

lemma distinct_defined:
  "distinct (map fst al) \<Longrightarrow>
   distinct (map fst (List.map_filter (\<lambda>(k, x). map_option (Pair k) x) al))"
proof (induction al)
  case Nil
  then show ?case by (simp add: map_filter_simps)
next
  case (Cons p al)
  obtain k1 x1 where p: "p = (k1, x1)" by (cases p)
  show ?case
    using Cons fst_defined [of al] by (cases x1) (auto simp add: p map_filter_simps)
qed

text \<open>The written object maps a key to exactly what \<^verbatim>\<open>get\<close> gives for it.\<close>

lemma map_of_snapshot_entries:
  "map_of (snapshot_entries now c) k = NodeCache_get c now k"
proof -
  have "map_of (snapshot_entries now c) k =
      (if k \<in> set (NodeCache_keys c) then NodeCache_get c now k else None)"
    unfolding snapshot_entries_def
    by (simp add: map_of_defined distinct_collect map_of_collect split: option.splits)
  moreover have "NodeCache_get c now k = None" if "k \<notin> set (NodeCache_keys c)"
  proof -
    have "map_of (entries c) k = None"
      using that by (simp add: NodeCache_keys_def map_of_eq_None_iff)
    then show ?thesis by (simp add: NodeCache_get_def)
  qed
  ultimately show ?thesis by simp
qed

lemma distinct_snapshot_entries: "distinct (map fst (snapshot_entries now c))"
  unfolding snapshot_entries_def by (simp add: distinct_defined distinct_collect)

subsection \<open>Loading a list of entries\<close>

lemma get_after_sets:
  "distinct (map fst kvs) \<Longrightarrow> 0 \<le> stdTTL (cache w) \<Longrightarrow>
   NodeCache_get (cache (foldl (\<lambda>w' (key, x). cache_set now key x w') w kvs)) now k =
     (case map_of kvs k of Some x \<Rightarrow> Some x | None \<Rightarrow> NodeCache_get (cache w) now k)"
proof (induction kvs arbitrary: w)
  case Nil
  then show ?case by simp
next
  case (Cons p kvs)
  obtain k1 x1 where p: "p = (k1, x1)" by (cases p)
  let ?w1 = "cache_set now k1 x1 w"
  have ttl: "0 \<le> stdTTL (cache ?w1)"
    using Cons.prems by (simp add: world_ops stdTTL_set)
  have "NodeCache_get (cache (foldl (\<lambda>w' (key, x). cache_set now key x w') ?w1 kvs)) now k =
     (case map_of kvs k of Some x \<Rightarrow> Some x | None \<Rightarrow> NodeCache_get (cache ?w1) now k)"
    using Cons.IH [of ?w1] Cons.prems ttl by simp
  moreover have "map_of kvs k1 = None"
    using Cons.prems by (simp add: p map_of_eq_None_iff)
  moreover have "NodeCache_get (cache ?w1) now k1 = Some x1"
    using Cons.prems by (simp add: world_ops get_set_same expiry_def)
  moreover have "NodeCache_get (cache ?w1) now k = NodeCache_get (cache w) now k" if "k \<noteq> k1"
    using that by (simp add: world_ops get_set_other)
  ultimately show ?case
    by (cases "k = k1") (simp_all add: p split: option.splits)
qed

lemma loadCache_content:
  "snapshot w = Content (Stringified (JObj kvs)) \<Longrightarrow>
   loadCache now w = foldl (\<lambda>w' (key, x). cache_set now key x w') w kvs"
  by (simp add: loadCache_def world_ops JSON_parse_def Object_entries_def)

subsection \<open>Saving the cache\<close>

lemma sel_emit:
  "cache (emit e w) = cache w" "snapshot (emit e w) = snapshot w"
  "writable (emit e w) = writable w" "upstream (emit e w) = upstream w"
  by (simp_all add: emit_def)

lemma saveCache_writable: "writable w \<Longrightarrow> saveCache now w = Inr (saved now w)"
  by (simp add: saveCache_eq writeFileSync_def saved_def)

lemma saveCache_refused: "\<not> writable w \<Longrightarrow> saveCache now w = Inl EACCES"
  by (simp add: saveCache_eq writeFileSync_def)

lemma sel_saved:
  "cache (saved now w) = cache w" "upstream (saved now w) = upstream w"
  "writable (saved now w) = writable w"
  "snapshot (saved now w) = Content (JSON_stringify (JObj (snapshot_entries now (cache w))))"
  by (simp_all add: saved_def emit_def)

lemma events_saved:
  "events (saved now w) =
     events w @ [FileWritten (JSON_stringify (JObj (snapshot_entries now (cache w))))]"
  by (simp add: saved_def emit_def)


subsection \<open>The paths of the request handler\<close>

lemma truthy_value_None: "(truthy_value x = None) = (\<not> truthy_opt x)"
  by (cases x) (simp_all add: truthy_value_def)

lemma handler_hit:
  "truthy_value (NodeCache_get (cache w) now (generateCacheKey P r)) = Some c \<Longrightarrow>
   handler P origin now r w = res_json 200 (Some ''HIT'') c w"
  by (simp add: handler_def Let_def)

lemma handler_bad_origin:
  assumes "\<not> truthy_opt (NodeCache_get (cache w) now (generateCacheKey P r))"
    and "URL_host P origin = None"
  shows "handler P origin now r w =
     res_json 500 None (failure_body \<lparr>message = ''Invalid URL'', response_status = None\<rparr>)
       (emit (ConsoleError ''Proxy error:'') w)"
proof -
  have "truthy_value (NodeCache_get (cache w) now (generateCacheKey P r)) = None"
    using assms(1) by (simp add: truthy_value_None)
  with assms show ?thesis
    by (simp add: handler_def try_block_def catch_block_def Let_def status_or_500_def)
qed

lemma handler_first_rejected:
  assumes "\<not> truthy_opt (NodeCache_get (cache w) now (generateCacheKey P r))"
    and "URL_host P origin = Some h"
    and "origin_server P (upstream w) (request_config origin r (headers r) h) = (res, u1)"
    and "settle validateStatus res = Inl e"
  shows "handler P origin now r w =
     res_json (status_or_500 e) None (failure_body e)
       (emit (ConsoleError ''Proxy error:'')
         (emit (Forwarded (request_config origin r (headers r) h)) (w\<lparr>upstream := u1\<rparr>)))"
proof -
  have "truthy_value (NodeCache_get (cache w) now (generateCacheKey P r)) = None"
    using assms(1) by (simp add: truthy_value_None)
  with assms show ?thesis
    by (simp add: handler_def try_block_def catch_block_def axios_def Let_def)
qed

lemma handler_first_stored:
  assumes "\<not> truthy_opt (NodeCache_get (cache w) now (generateCacheKey P r))"
    and "URL_host P origin = Some h"
    and "origin_server P (upstream w) (request_config origin r (headers r) h) = (res, u1)"
    and "settle validateStatus res = Inr resp"
    and "truthy (data resp)"
    and "writable w"
  shows "handler P origin now r w =
     res_json 200 (Some ''MISS'') (data resp)
       (saved now (cache_set now (generateCacheKey P r) (data resp)
         (emit (Forwarded (request_config origin r (headers r) h)) (w\<lparr>upstream := u1\<rparr>))))"
proof -
  have "truthy_value (NodeCache_get (cache w) now (generateCacheKey P r)) = None"
    using assms(1) by (simp add: truthy_value_None)
  moreover have "saveCache now (cache_set now (generateCacheKey P r) (data resp)
         (emit (Forwarded (request_config origin r (headers r) h)) (w\<lparr>upstream := u1\<rparr>)))
      = Inr (saved now (cache_set now (generateCacheKey P r) (data resp)
         (emit (Forwarded (request_config origin r (headers r) h)) (w\<lparr>upstream := u1\<rparr>))))"
    using assms(6) by (intro saveCache_writable) (simp add: cache_set_def emit_def)
  ultimately show ?thesis
    using assms by (simp add: handler_def try_block_def axios_def Let_def res_json_def)
qed

lemma handler_first_unsaved:
  assumes "\<not> truthy_opt (NodeCache_get (cache w) now (generateCacheKey P r))"
    and "URL_host P origin = Some h"
    and "origin_server P (upstream w) (request_config origin r (headers r) h) = (res, u1)"
    and "settle validateStatus res = Inr resp"
    and "truthy (data resp)"
    and "\<not> writable w"
  shows "handler P origin now r w =
     res_json 500 (Some ''MISS'') (failure_body EACCES)
       (emit (ConsoleError ''Proxy error:'')
         (cache_set now (generateCacheKey P r) (data resp)
           (emit (Forwarded (request_config origin r (headers r) h)) (w\<lparr>upstream := u1\<rparr>))))"
proof -
  have "truthy_value (NodeCache_get (cache w) now (generateCacheKey P r)) = None"
    using assms(1) by (simp add: truthy_value_None)
  moreover have "saveCache now (cache_set now (generateCacheKey P r) (data resp)
         (emit (Forwarded (request_config origin r (headers r) h)) (w\<lparr>upstream := u1\<rparr>)))
      = Inl EACCES"
    using assms(6) by (intro saveCache_refused) (simp add: cache_set_def emit_def)
  ultimately show ?thesis
    using assms
    by (simp add: handler_def try_block_def axios_def catch_block_def Let_def status_or_500_def
        EACCES_def)
qed

lemma handler_first_falsy:
  assumes "\<not> truthy_opt (NodeCache_get (cache w) now (generateCacheKey P r))"
    and "URL_host P origin = Some h"
    and "origin_server P (upstream w) (request_config origin r (headers r) h) = (res, u1)"
    and "settle validateStatus res = Inr resp"
    and "\<not> truthy (data resp)" and "status resp \<noteq> 304"
  shows "handler P origin now r w =
     (None, emit (Forwarded (request_config origin r (headers r) h)) (w\<lparr>upstream := u1\<rparr>))"
proof -
  have "truthy_value (NodeCache_get (cache w) now (generateCacheKey P r)) = None"
    using assms(1) by (simp add: truthy_value_None)
  with assms show ?thesis
    by (simp add: handler_def try_block_def axios_def Let_def)
qed

lemma handler_second_rejected:
  assumes "\<not> truthy_opt (NodeCache_get (cache w) now (generateCacheKey P r))"
    and "URL_host P origin = Some h"
    and "origin_server P (upstream w) (request_config origin r (headers r) h) = (res, u1)"
    and "settle validateStatus res = Inr resp"
    and "\<not> truthy (data resp)" and "status resp = 304"
    and "origin_server P u1 (request_config origin r (stripped_headers r) h) = (res2, u2)"
    and "settle default_validateStatus res2 = Inl e"
  shows "handler P origin now r w =
     res_json (status_or_500 e) None (failure_body e)
       (emit (ConsoleError ''Proxy error:'')
         (emit (Forwarded (request_config origin r (stripped_headers r) h))
           (emit (Forwarded (request_config origin r (headers r) h)) (w\<lparr>upstream := u2\<rparr>))))"
proof -
  have "truthy_value (NodeCache_get (cache w) now (generateCacheKey P r)) = None"
    using assms(1) by (simp add: truthy_value_None)
  with assms show ?thesis
    by (simp add: handler_def try_block_def axios_def catch_block_def Let_def emit_def)
qed

lemma handler_second_stored:
  assumes "\<not> truthy_opt (NodeCache_get (cache w) now (generateCacheKey P r))"
    and "URL_host P origin = Some h"
    and "origin_server P (upstream w) (request_config origin r (headers r) h) = (res, u1)"
    and "settle validateStatus res = Inr resp"
    and "\<not> truthy (data resp)" and "status resp = 304"
    and "origin_server P u1 (request_config origin r (stripped_headers r) h) = (res2, u2)"
    and "settle default_validateStatus res2 = Inr fresh"
    and "writable w"
  shows "handler P origin now r w =
     res_json 200 (Some ''MISS'') (data fresh)
       (saved now (cache_set now (generateCacheKey P r) (data fresh)
         (emit (Forwarded (request_config origin r (stripped_headers r) h))
           (emit (Forwarded (request_config origin r (headers r) h)) (w\<lparr>upstream := u2\<rparr>)))))"
proof -
  let ?w3 = "cache_set now (generateCacheKey P r) (data fresh)
         (emit (Forwarded (request_config origin r (stripped_headers r) h))
           (emit (Forwarded (request_config origin r (headers r) h)) (w\<lparr>upstream := u2\<rparr>)))"
  have "truthy_value (NodeCache_get (cache w) now (generateCacheKey P r)) = None"
    using assms(1) by (simp add: truthy_value_None)
  moreover have "saveCache now ?w3 = Inr (saved now ?w3)"
    using assms(9) by (intro saveCache_writable) (simp add: cache_set_def emit_def)
  moreover have "emit (Forwarded (request_config origin r (stripped_headers r) h))
        (emit (Forwarded (request_config origin r (headers r) h)) (w\<lparr>upstream := u1\<rparr>)
          \<lparr>upstream := u2\<rparr>)
      = emit (Forwarded (request_config origin r (stripped_headers r) h))
          (emit (Forwarded (request_config origin r (headers r) h)) (w\<lparr>upstream := u2\<rparr>))"
    by (simp add: emit_def)
  ultimately show ?thesis
    using assms by (simp add: handler_def try_block_def axios_def Let_def res_json_def sel_emit)
qed

lemma handler_second_unsaved:
  assumes "\<not> truthy_opt (NodeCache_get (cache w) now (generateCacheKey P r))"
    and "URL_host P origin = Some h"
    and "origin_server P (upstream w) (request_config origin r (headers r) h) = (res, u1)"
    and "settle validateStatus res = Inr resp"
    and "\<not> truthy (data resp)" and "status resp = 304"
    and "origin_server P u1 (request_config origin r (stripped_headers r) h) = (res2, u2)"
    and "settle default_validateStatus res2 = Inr fresh"
    and "\<not> writable w"
  shows "handler P origin now r w =
     res_json 500 (Some ''MISS'') (failure_body EACCES)
       (emit (ConsoleError ''Proxy error:'')
         (cache_set now (generateCacheKey P r) (data fresh)
           (emit (Forwarded (request_config origin r (stripped_headers r) h))
             (emit (Forwarded (request_config origin r (headers r) h)) (w\<lparr>upstream := u2\<rparr>)))))"
proof -
  let ?w3 = "cache_set now (generateCacheKey P r) (data fresh)
         (emit (Forwarded (request_config origin r (stripped_headers r) h))
           (emit (Forwarded (request_config origin r (headers r) h)) (w\<lparr>upstream := u2\<rparr>)))"
  have "truthy_value (NodeCache_get (cache w) now (generateCacheKey P r)) = None"
    using assms(1) by (simp add: truthy_value_None)
  moreover have "saveCache now ?w3 = Inl EACCES"
    using assms(9) by (intro saveCache_refused) (simp add: cache_set_def emit_def)
  moreover have "emit (Forwarded (request_config origin r (stripped_headers r) h))
        (emit (Forwarded (request_config origin r (headers r) h)) (w\<lparr>upstream := u1\<rparr>)
          \<lparr>upstream := u2\<rparr>)
      = emit (Forwarded (request_config origin r (stripped_headers r) h))
          (emit (Forwarded (request_config origin r (headers r) h)) (w\<lparr>upstream := u2\<rparr>))"
    by (simp add: emit_def)
  ultimately show ?thesis
    using assms
    by (simp add: handler_def try_block_def axios_def catch_block_def Let_def status_or_500_def
        EACCES_def sel_emit)
qed

text \<open>Every run of the handler takes one of nine paths.\<close>

lemma handler_cases [case_names hit bad_origin first_rejected first_stored first_unsaved
    first_falsy second_rejected second_stored second_unsaved]:
  fixes P :: "'u platform" and w :: "'u world"
  obtains
    c where "NodeCache_get (cache w) now (generateCacheKey P r) = Some c" "truthy c"
      "handler P origin now r w = res_json 200 (Some ''HIT'') c w"
  | "\<not> truthy_opt (NodeCache_get (cache w) now (generateCacheKey P r))"
      "URL_host P origin = None"
      "handler P origin now r w =
         res_json 500 None (failure_body \<lparr>message = ''Invalid URL'', response_status = None\<rparr>)
           (emit (ConsoleError ''Proxy error:'') w)"
  | h res u1 e where
      "\<not> truthy_opt (NodeCache_get (cache w) now (generateCacheKey P r))"
      "URL_host P origin = Some h"
      "origin_server P (upstream w) (request_config origin r (headers r) h) = (res, u1)"
      "settle validateStatus res = Inl e"
      "handler P origin now r w =
         res_json (status_or_500 e) None (failure_body e)
           (emit (ConsoleError ''Proxy error:'')
             (emit (Forwarded (request_config origin r (headers r) h)) (w\<lparr>upstream := u1\<rparr>)))"
  | h res u1 resp where
      "\<not> truthy_opt (NodeCache_get (cache w) now (generateCacheKey P r))"
      "URL_host P origin = Some h"
      "origin_server P (upstream w) (request_config origin r (headers r) h) = (res, u1)"
      "settle validateStatus res = Inr resp" "truthy (data resp)" "writable w"
      "handler P origin now r w =
         res_json 200 (Some ''MISS'') (data resp)
           (saved now (cache_set now (generateCacheKey P r) (data resp)
             (emit (Forwarded (request_config origin r (headers r) h)) (w\<lparr>upstream := u1\<rparr>))))"
  | h res u1 resp where
      "\<not> truthy_opt (NodeCache_get (cache w) now (generateCacheKey P r))"
      "URL_host P origin = Some h"
      "origin_server P (upstream w) (request_config origin r (headers r) h) = (res, u1)"
      "settle validateStatus res = Inr resp" "truthy (data resp)" "\<not> writable w"
      "handler P origin now r w =
         res_json 500 (Some ''MISS'') (failure_body EACCES)
           (emit (ConsoleError ''Proxy error:'')
             (cache_set now (generateCacheKey P r) (data resp)
               (emit (Forwarded (request_config origin r (headers r) h)) (w\<lparr>upstream := u1\<rparr>))))"
  | h res u1 resp where
      "\<not> truthy_opt (NodeCache_get (cache w) now (generateCacheKey P r))"
      "URL_host P origin = Some h"
      "origin_server P (upstream w) (request_config origin r (headers r) h) = (res, u1)"
      "settle validateStatus res = Inr resp" "\<not> truthy (data resp)" "status resp \<noteq> 304"
      "handler P origin now r w =
         (None, emit (Forwarded (request_config origin r (headers r) h)) (w\<lparr>upstream := u1\<rparr>))"
  | h res u1 resp res2 u2 e where
      "\<not> truthy_opt (NodeCache_get (cache w) now (generateCacheKey P r))"
      "URL_host P origin = Some h"
      "origin_server P (upstream w) (request_config origin r (headers r) h) = (res, u1)"
      "settle validateStatus res = Inr resp" "\<not> truthy (data resp)" "status resp = 304"
      "origin_server P u1 (request_config origin r (stripped_headers r) h) = (res2, u2)"
      "settle default_validateStatus res2 = Inl e"
      "handler P origin now r w =
         res_json (status_or_500 e) None (failure_body e)
           (emit (ConsoleError ''Proxy error:'')
             (emit (Forwarded (request_config origin r (stripped_headers r) h))
               (emit (Forwarded (request_config origin r (headers r) h)) (w\<lparr>upstream := u2\<rparr>))))"
  | h res u1 resp res2 u2 fresh where
      "\<not> truthy_opt (NodeCache_get (cache w) now (generateCacheKey P r))"
      "URL_host P origin = Some h"
      "origin_server P (upstream w) (request_config origin r (headers r) h) = (res, u1)"
      "settle validateStatus res = Inr resp" "\<not> truthy (data resp)" "status resp = 304"
      "origin_server P u1 (request_config origin r (stripped_headers r) h) = (res2, u2)"
      "settle default_validateStatus res2 = Inr fresh" "writable w"
      "handler P origin now r w =
         res_json 200 (Some ''MISS'') (data fresh)
           (saved now (cache_set now (generateCacheKey P r) (data fresh)
             (emit (Forwarded (request_config origin r (stripped_headers r) h))
               (emit (Forwarded (request_config origin r (headers r) h)) (w\<lparr>upstream := u2\<rparr>)))))"
  | h res u1 resp res2 u2 fresh where
      "\<not> truthy_opt (NodeCache_get (cache w) now (generateCacheKey P r))"
      "URL_host P origin = Some h"
      "origin_server P (upstream w) (request_config origin r (headers r) h) = (res, u1)"
      "settle validateStatus res = Inr resp" "\<not> truthy (data resp)" "status resp = 304"
      "origin_server P u1 (request_config origin r (stripped_headers r) h) = (res2, u2)"
      "settle default_validateStatus res2 = Inr fresh" "\<not> writable w"
      "handler P origin now r w =
         res_json 500 (Some ''MISS'') (failure_body EACCES)
           (emit (ConsoleError ''Proxy error:'')
             (cache_set now (generateCacheKey P r) (data fresh)
               (emit (Forwarded (request_config origin r (stripped_headers r) h))
                 (emit (Forwarded (request_config origin r (headers r) h))
                   (w\<lparr>upstream := u2\<rparr>)))))"
proof (cases "truthy_opt (NodeCache_get (cache w) now (generateCacheKey P r))")
  case True
  then obtain c where c: "NodeCache_get (cache w) now (generateCacheKey P r) = Some c" "truthy c"
    by (cases "NodeCache_get (cache w) now (generateCacheKey P r)") simp_all
  then have "truthy_value (NodeCache_get (cache w) now (generateCacheKey P r)) = Some c"
    by (simp add: truthy_value_def)
  from that(1) [OF c handler_hit [OF this]] show ?thesis .
next
  case miss: False
  show ?thesis
  proof (cases "URL_host P origin")
    case None
    from that(2) [OF miss None handler_bad_origin [OF miss None]] show ?thesis .
  next
    case (Some h)
    obtain res u1 where
      first: "origin_server P (upstream w) (request_config origin r (headers r) h) = (res, u1)"
      by (cases "origin_server P (upstream w) (request_config origin r (headers r) h)")
    show ?thesis
    proof (cases "settle validateStatus res")
      case (Inl e)
      from that(3) [OF miss Some first Inl handler_first_rejected [OF miss Some first Inl]]
      show ?thesis .
    next
      case (Inr resp)
      show ?thesis
      proof (cases "truthy (data resp)")
        case True
        show ?thesis
        proof (cases "writable w")
          case wr: True
          from that(4) [OF miss Some first Inr True wr
              handler_first_stored [OF miss Some first Inr True wr]]
          show ?thesis .
        next
          case wr: False
          from that(5) [OF miss Some first Inr True wr
              handler_first_unsaved [OF miss Some first Inr True wr]]
          show ?thesis .
        qed
      next
        case falsy: False
        show ?thesis
        proof (cases "status resp = 304")
          case False
          from that(6) [OF miss Some first Inr falsy False
              handler_first_falsy [OF miss Some first Inr falsy False]]
          show ?thesis .
        next
          case True
          obtain res2 u2 where
            second: "origin_server P u1 (request_config origin r (stripped_headers r) h) = (res2, u2)"
            by (cases "origin_server P u1 (request_config origin r (stripped_headers r) h)")
          show ?thesis
          proof (cases "settle default_validateStatus res2")
            case (Inl e)
            from that(7) [OF miss Some first Inr falsy True second Inl
                handler_second_rejected [OF miss Some first Inr falsy True second Inl]]
            show ?thesis .
          next
            case fresh: (Inr freshResponse)
            show ?thesis
            proof (cases "writable w")
              case wr: True
              from that(8) [OF miss Some first Inr falsy True second fresh wr
                  handler_second_stored [OF miss Some first Inr falsy True second fresh wr]]
              show ?thesis .
            next
              case wr: False
              from that(9) [OF miss Some first Inr falsy True second fresh wr
                  handler_second_unsaved [OF miss Some first Inr falsy True second fresh wr]]
              show ?thesis .
            qed
          qed
        qed
      qed
    qed
  qed
qed

subsection \<open>Failed upstream calls\<close>

lemma settle_failed:
  "upstream_failed res \<Longrightarrow>
   \<exists>e. settle validateStatus res = Inl e \<and> settle default_validateStatus res = Inl e
     \<and> res_status (failure_reply res) = status_or_500 e
     \<and> res_body (failure_reply res) = failure_body e"
  by (cases res)
    (auto simp add: upstream_failed_def settle_def validateStatus_def default_validateStatus_def
      failure_reply_def status_or_500_def failure_body_def)

lemma failure_reply_eq:
  "res_status (failure_reply res) = status_or_500 e \<Longrightarrow>
   res_body (failure_reply res) = failure_body e \<Longrightarrow>
   \<lparr>res_status = status_or_500 e, res_x_cache = None, res_body = failure_body e\<rparr> =
     failure_reply res"
  by (simp add: failure_reply_def)

subsection \<open>The examples\<close>

lemma example_miss: "\<not> truthy_opt (NodeCache_get (cache (CachingProxy f wr u)) now k)"
  by (simp add: CachingProxy_def get_new_NodeCache)

lemma example_host: "URL_host example_platform ''http://origin.test'' = Some ''origin.test''"
  by (simp add: example_platform_def)

lemma example_origin:
  "origin_server example_platform (x # xs) c = (x, xs)"
  "origin_server example_platform [] c = (NetworkError ''connect ECONNREFUSED'', [])"
  by (simp_all add: example_platform_def)

lemma sel_CachingProxy:
  "upstream (CachingProxy f wr u) = u" "writable (CachingProxy f wr u) = wr"
  "snapshot (CachingProxy f wr u) = f" "cache (CachingProxy f wr u) = new_NodeCache 3600"
  "events (CachingProxy f wr u) = []"
  by (simp_all add: CachingProxy_def)

section \<open>The properties\<close>




text \<open>
  C2. The specification asks that the first request sent upstream on a miss has the
  conditional-request headers removed. The handler does not do that: for a request with an
  \<^verbatim>\<open>if-none-match\<close> header on an empty store, the first request sent upstream still carries
  the header; the origin answers 304, and only the second request is sent without it.
\<close>

theorem first_request_keeps_conditional_headers:
  "forwards (events (snd (handler example_platform ''http://origin.test'' 0 conditional_request
       (CachingProxy Absent True [Response 304 (JStr []), Response 200 example_payload]))))
   = [\<lparr>cfg_method = ''GET'', cfg_url = ''http://origin.test/x'',
       cfg_headers = [(''if-none-match'', ''v1''), (''host'', ''origin.test'')]\<rparr>,
      \<lparr>cfg_method = ''GET'', cfg_url = ''http://origin.test/x'',
       cfg_headers = [(''host'', ''origin.test'')]\<rparr>]"
proof -
  let ?w = "CachingProxy Absent True [Response 304 (JStr []), Response 200 example_payload]"
  have first: "origin_server example_platform (upstream ?w)
      (request_config ''http://origin.test'' conditional_request (headers conditional_request)
         ''origin.test'')
      = (Response 304 (JStr []), [Response 200 example_payload])"
    by (simp add: sel_CachingProxy example_origin)
  have wr: "writable ?w"
    by (simp add: sel_CachingProxy)
  have resp: "settle validateStatus (Response 304 (JStr [])) = Inr \<lparr>status = 304, data = JStr []\<rparr>"
    by (simp add: settle_def validateStatus_def)
  have second: "origin_server example_platform [Response 200 example_payload]
      (request_config ''http://origin.test'' conditional_request
         (stripped_headers conditional_request) ''origin.test'')
      = (Response 200 example_payload, [])"
    by (simp add: example_origin)
  have fresh: "settle default_validateStatus (Response 200 example_payload)
      = Inr \<lparr>status = 200, data = example_payload\<rparr>"
    by (simp add: settle_def default_validateStatus_def)
  from handler_second_stored [OF example_miss example_host first resp _ _ second fresh wr]
  show ?thesis
    by (simp add: res_json_def emit_def events_saved cache_set_def forwards_def
        CachingProxy_def request_config_def stripped_headers_def conditional_request_def)
qed

text \<open>
  C3. The specification asks that an entry is stored with the configured TTL, 60 seconds
  by default, and is gone after it. The program does not do that: started with \<^verbatim>\<open>--ttl 60\<close>, it
  replies to a request at time 0 with a MISS, and to the same request 61 seconds later
  with a HIT, since the \<^verbatim>\<open>ttl\<close> option is never read and every entry is kept for the 3600
  seconds the cache was built with.
\<close>

theorem ttl_option_ignored:
  "argv_ttl example_argv = 60
   \<and> (case main example_platform example_argv 0 [(0, example_request), (61000, example_request)]
          Absent True [Response 200 example_payload] of
        Inl error \<Rightarrow> None
      | Inr (replies, w) \<Rightarrow> Some replies)
     = Some [Some \<lparr>res_status = 200, res_x_cache = Some ''MISS'', res_body = example_payload\<rparr>,
             Some \<lparr>res_status = 200, res_x_cache = Some ''HIT'', res_body = example_payload\<rparr>]"
proof -
  let ?k = "generateCacheKey example_platform example_request"
  let ?w = "CachingProxy Absent True [Response 200 example_payload]"
  let ?cfg = "request_config ''http://origin.test'' example_request (headers example_request)
      ''origin.test''"
  let ?w1 = "saved 0 (cache_set 0 ?k example_payload
      (emit (Forwarded ?cfg) (?w\<lparr>upstream := []\<rparr>)))"
  let ?w2 = "emit (Responded \<lparr>res_status = 200, res_x_cache = Some ''MISS'',
      res_body = example_payload\<rparr>) ?w1"
  have load: "loadCache 0 ?w = ?w"
    by (simp add: loadCache_def existsSync_def CachingProxy_def)
  have first: "origin_server example_platform (upstream ?w) ?cfg = (Response 200 example_payload, [])"
    by (simp add: sel_CachingProxy example_origin)
  have resp: "settle validateStatus (Response 200 example_payload)
      = Inr \<lparr>status = 200, data = example_payload\<rparr>"
    by (simp add: settle_def validateStatus_def)
  have p: "truthy example_payload"
    by (simp add: example_payload_def)
  have wr: "writable ?w"
    by (simp add: sel_CachingProxy)
  from handler_first_stored [OF example_miss example_host first resp _ wr] p
  have h1: "handler example_platform ''http://origin.test'' 0 example_request ?w =
      (Some \<lparr>res_status = 200, res_x_cache = Some ''MISS'', res_body = example_payload\<rparr>, ?w2)"
    by (simp add: res_json_def)
  have "NodeCache_get (cache ?w2) 61000 ?k = Some example_payload"
    by (simp add: emit_def sel_saved cache_set_def get_set_same expiry_def CachingProxy_def
        new_NodeCache_def)
  then have "truthy_value (NodeCache_get (cache ?w2) 61000 ?k) = Some example_payload"
    using p by (simp add: truthy_value_def)
  from handler_hit [OF this]
  have h2: "handler example_platform ''http://origin.test'' 61000 example_request ?w2 =
      res_json 200 (Some ''HIT'') example_payload ?w2"
    by simp
  show ?thesis
    by (simp add: main_def start_def example_argv_def load h1 h2 res_json_def)
qed

text \<open>
  C4. When an upstream call fails, the store and the snapshot file are left as they were
  and the reply is an error outcome with the status of the origin, or 500 when the origin
  gave none. The failing call is the first request, or the second request sent after a 304
  with a falsy body. The handler returns with this reply: the failure is caught.
\<close>

theorem upstream_failure_reported:
  assumes miss: "\<not> truthy_opt (NodeCache_get (cache w) now (generateCacheKey P r))"
    and host: "URL_host P origin = Some h"
    and first: "origin_server P (upstream w) (request_config origin r (headers r) h) = (res, u1)"
    and second: "origin_server P u1 (request_config origin r (stripped_headers r) h) = (res2, u2)"
    and fails: "upstream_failed res \<or> (res = Response 304 d \<and> \<not> truthy d \<and> upstream_failed res2)"
    and run: "handler P origin now r w = (reply, w')"
  shows "cache w' = cache w \<and> snapshot w' = snapshot w
     \<and> reply = Some (failure_reply (if upstream_failed res then res else res2))"
proof (cases "upstream_failed res")
  case True
  from settle_failed [OF True] obtain e where
    e: "settle validateStatus res = Inl e" "res_status (failure_reply res) = status_or_500 e"
      "res_body (failure_reply res) = failure_body e"
    by blast
  from handler_first_rejected [OF miss host first e(1)] run True failure_reply_eq [OF e(2,3)]
  show ?thesis
    by (auto simp add: world_ops)
next
  case False
  with fails have res: "res = Response 304 d" "\<not> truthy d" and failed2: "upstream_failed res2"
    by simp_all
  have resp: "settle validateStatus res = Inr \<lparr>status = 304, data = d\<rparr>"
    by (simp add: res settle_def validateStatus_def)
  from settle_failed [OF failed2] obtain e where
    e: "settle default_validateStatus res2 = Inl e"
      "res_status (failure_reply res2) = status_or_500 e"
      "res_body (failure_reply res2) = failure_body e"
    by blast
  from handler_second_rejected [OF miss host first resp _ _ second e(1)] res run False
    failure_reply_eq [OF e(2,3)]
  show ?thesis
    by (auto simp add: world_ops)
qed

text \<open>An origin that answers 503, and an origin that answers 304 and then cannot be
  reached.\<close>

theorem upstream_failure_reported_witness:
  "handler example_platform ''http://origin.test'' 0 example_request
       (CachingProxy Absent True [Response 503 (JStr ''unavailable'')])
     = (Some \<lparr>res_status = 503, res_x_cache = None,
              res_body = JObj [(''error'', JStr ''Proxy request failed''),
                (''details'', JStr (''Request failed with status code '' @ dec 503))]\<rparr>,
        snd (handler example_platform ''http://origin.test'' 0 example_request
          (CachingProxy Absent True [Response 503 (JStr ''unavailable'')])))
   \<and> cache (snd (handler example_platform ''http://origin.test'' 0 example_request
          (CachingProxy Absent True [Response 503 (JStr ''unavailable'')]))) = new_NodeCache 3600
   \<and> fst (handler example_platform ''http://origin.test'' 0 example_request
       (CachingProxy Absent True [Response 304 (JStr [])]))
     = Some \<lparr>res_status = 500, res_x_cache = None,
              res_body = JObj [(''error'', JStr ''Proxy request failed''),
                (''details'', JStr ''connect ECONNREFUSED'')]\<rparr>
   \<and> snapshot (snd (handler example_platform ''http://origin.test'' 0 example_request
       (CachingProxy Absent True [Response 304 (JStr [])]))) = Absent"
proof -
  let ?w1 = "CachingProxy Absent True [Response 503 (JStr ''unavailable'')]"
  let ?h1 = "handler example_platform ''http://origin.test'' 0 example_request ?w1"
  let ?w2 = "CachingProxy Absent True [Response 304 (JStr [])]"
  let ?h2 = "handler example_platform ''http://origin.test'' 0 example_request ?w2"
  have first1: "origin_server example_platform (upstream ?w1)
      (request_config ''http://origin.test'' example_request (headers example_request)
         ''origin.test'')
      = (Response 503 (JStr ''unavailable''), [])"
    by (simp add: sel_CachingProxy example_origin)
  have second1: "origin_server example_platform []
      (request_config ''http://origin.test'' example_request (stripped_headers example_request)
         ''origin.test'')
      = (NetworkError ''connect ECONNREFUSED'', [])"
    by (simp add: example_origin)
  have fails1: "upstream_failed (Response 503 (JStr ''unavailable''))
      \<or> (Response 503 (JStr ''unavailable'') = Response 304 JNull \<and> \<not> truthy JNull
          \<and> upstream_failed (NetworkError ''connect ECONNREFUSED''))"
    by (simp add: upstream_failed_def)
  have first2: "origin_server example_platform (upstream ?w2)
      (request_config ''http://origin.test'' example_request (headers example_request)
         ''origin.test'')
      = (Response 304 (JStr []), [])"
    by (simp add: sel_CachingProxy example_origin)
  have fails2: "upstream_failed (Response 304 (JStr []))
      \<or> (Response 304 (JStr []) = Response 304 (JStr []) \<and> \<not> truthy (JStr [])
          \<and> upstream_failed (NetworkError ''connect ECONNREFUSED''))"
    by (simp add: upstream_failed_def)
  have run1: "?h1 = (fst ?h1, snd ?h1)" and run2: "?h2 = (fst ?h2, snd ?h2)"
    by simp_all
  from upstream_failure_reported [OF example_miss example_host first1 second1 fails1 run1]
    upstream_failure_reported [OF example_miss example_host first2 second1 fails2 run2]
  show ?thesis
    by (simp add: upstream_failed_def failure_reply_def CachingProxy_def prod_eq_iff)
qed

text \<open>
  C5. Key derivation depends on nothing but the method, the target and the headers of a
  request: two requests that agree on the three have the same key, whatever else they
  carry. It has no failure path, and every key is a string of 32 lower-case hexadecimal
  digits, for any digest function.
\<close>

theorem key_derivation:
  "(method r1 = method r2 \<and> url r1 = url r2 \<and> headers r1 = headers r2
      \<longrightarrow> generateCacheKey P r1 = generateCacheKey P r2)
   \<and> length (generateCacheKey P r1) = 32
   \<and> set (generateCacheKey P r1) \<subseteq> set ''0123456789abcdef''"
  by (simp add: generateCacheKey_def digest_hex_length digest_hex_chars del: set_simps)

text \<open>Two requests that differ in their bodies only.\<close>

theorem key_derivation_witness:
  "generateCacheKey example_platform
       \<lparr>method = ''GET'', url = ''/x'', headers = [(''accept'', ''*/*'')], \<dots> = ''body one''\<rparr>
     = generateCacheKey example_platform
       \<lparr>method = ''GET'', url = ''/x'', headers = [(''accept'', ''*/*'')], \<dots> = ''body two''\<rparr>
   \<and> length (generateCacheKey example_platform
       \<lparr>method = ''GET'', url = ''/x'', headers = [(''accept'', ''*/*'')], \<dots> = ''body one''\<rparr>) = 32"
proof -
  let ?r1 = "\<lparr>method = ''GET'', url = ''/x'', headers = [(''accept'', ''*/*'')], \<dots> = ''body one''\<rparr>"
  let ?r2 = "\<lparr>method = ''GET'', url = ''/x'', headers = [(''accept'', ''*/*'')], \<dots> = ''body two''\<rparr>"
  have "method ?r1 = method ?r2 \<and> url ?r1 = url ?r2 \<and> headers ?r1 = headers ?r2"
    by simp
  with key_derivation [of ?r1 ?r2 example_platform] show ?thesis
    by blast
qed

text \<open>
  C6. Snapshot round trip: when \<^verbatim>\<open>saveCache\<close> at time \<open>now\<close> on any store has produced the
  snapshot, a new proxy started on the written file at time \<open>now'\<close> gives, for every key,
  the value the old store gave for it; so it gives nothing for every key when the old
  store was empty.
\<close>

theorem snapshot_round_trip:
  assumes "saveCache now w = Inr w1"
  shows "NodeCache_get (cache (loadCache now' (CachingProxy (snapshot w1) wr u))) now' k =
     NodeCache_get (cache w) now k"
proof -
  let ?kvs = "snapshot_entries now (cache w)"
  let ?w0 = "CachingProxy (Content (Stringified (JObj ?kvs))) wr u"
  have "w1 = saved now w"
    using assms saveCache_writable [of w now] saveCache_refused [of w now]
    by (cases "writable w") simp_all
  then have written: "snapshot w1 = Content (Stringified (JObj ?kvs))"
    by (simp add: sel_saved JSON_stringify_def)
  have "loadCache now' ?w0 = foldl (\<lambda>w' (key, x). cache_set now' key x w') ?w0 ?kvs"
    by (rule loadCache_content) (simp add: CachingProxy_def)
  moreover have "0 \<le> stdTTL (cache ?w0)" and "NodeCache_get (cache ?w0) now' k = None"
    by (simp_all add: CachingProxy_def new_NodeCache_def NodeCache_get_def)
  ultimately have "NodeCache_get (cache (loadCache now' ?w0)) now' k = map_of ?kvs k"
    using get_after_sets [OF distinct_snapshot_entries, of ?w0 now' now "cache w" k]
    by (simp split: option.splits)
  then show ?thesis
    by (simp add: written map_of_snapshot_entries)
qed

text \<open>A store with one entry, saved at time 0 and loaded by a new proxy at time 5.\<close>

theorem snapshot_round_trip_witness:
  "saveCache 0 (cache_set 0 ''k'' example_payload (CachingProxy Absent True ()))
     = Inr (saved 0 (cache_set 0 ''k'' example_payload (CachingProxy Absent True ())))
   \<and> NodeCache_get
        (cache (loadCache 5
          (CachingProxy
            (snapshot (saved 0 (cache_set 0 ''k'' example_payload (CachingProxy Absent True ()))))
            False ())))
        5 ''k''
     = Some example_payload"
proof -
  let ?w = "cache_set 0 ''k'' example_payload (CachingProxy Absent True ())"
  have "writable ?w"
    by (simp add: cache_set_def emit_def CachingProxy_def)
  then have save: "saveCache 0 ?w = Inr (saved 0 ?w)"
    by (rule saveCache_writable)
  have "NodeCache_get (cache ?w) 0 ''k'' = Some example_payload"
    by (simp add: cache_set_def emit_def CachingProxy_def get_set_same expiry_def
        new_NodeCache_def)
  with snapshot_round_trip [OF save, of 5 False "()" "''k''"] save show ?thesis
    by simp
qed

text \<open>
  C7, as amended. When the snapshot file cannot be read, or its text does not parse, or
  it parses to \<^verbatim>\<open>null\<close>, \<^verbatim>\<open>loadCache\<close> leaves the store as it was (empty, at startup), logs
  the error and returns. When the file is absent, \<^verbatim>\<open>loadCache\<close> leaves everything as it
  was and logs nothing: there is no failure to report.
\<close>

theorem restore_tolerates_failure:
  "(snapshot w = Unreadable \<or> snapshot w = Content Unparseable
      \<or> snapshot w = Content (Stringified JNull)
    \<longrightarrow> loadCache now w = emit (ConsoleError ''Error loading cache:'') w
        \<and> cache (loadCache now w) = cache w)
   \<and> (snapshot w = Absent \<longrightarrow> loadCache now w = w)"
  by (auto simp add: loadCache_def world_ops JSON_parse_def Object_entries_def)

theorem restore_tolerates_failure_witness:
  "loadCache 0 (CachingProxy Unreadable True ()) =
     \<lparr>cache = new_NodeCache 3600, snapshot = Unreadable, writable = True, upstream = (),
      events = [ConsoleError ''Error loading cache:'']\<rparr>
   \<and> loadCache 0 (CachingProxy (Content Unparseable) True ()) =
     \<lparr>cache = new_NodeCache 3600, snapshot = Content Unparseable, writable = True,
      upstream = (), events = [ConsoleError ''Error loading cache:'']\<rparr>
   \<and> loadCache 0 (CachingProxy Absent True ()) = CachingProxy Absent True ()
   \<and> entries (new_NodeCache 3600) = []"
  using restore_tolerates_failure [of "CachingProxy Unreadable True ()" 0]
    restore_tolerates_failure [of "CachingProxy (Content Unparseable) True ()" 0]
    restore_tolerates_failure [of "CachingProxy Absent True ()" 0]
  by (simp add: CachingProxy_def emit_def new_NodeCache_def)

text \<open>As first stated, for every malformed, unreadable or absent file, the property
  fails in two ways. For an absent file nothing is reported. And a file that holds JSON other than an object is neither reported nor
  treated as empty: the file \<^verbatim>\<open>[7]\<close> leaves the store with \<^verbatim>\<open>7\<close> under the key \<^verbatim>\<open>0\<close>.\<close>

theorem absent_snapshot_not_reported:
  "events (loadCache 0 (CachingProxy Absent True ())) = []
   \<and> events (loadCache 0 (CachingProxy (Content (Stringified (JArr [JNum 7]))) True ()))
       = [CacheSet ''0'' (JNum 7)]
   \<and> NodeCache_get
        (cache (loadCache 0 (CachingProxy (Content (Stringified (JArr [JNum 7]))) True ())))
        0 ''0'' = Some (JNum 7)"
  by (simp add: loadCache_def world_ops CachingProxy_def JSON_parse_def Object_entries_def
      dec.simps get_set_same expiry_def new_NodeCache_def)

text \<open>
  C8, as amended. When the snapshot file is absent, or the file system lets it be
  deleted, clearing succeeds and leaves the store empty and no snapshot file, whether the
  store was empty or populated; a second clear then succeeds as well (the file is absent
  and is not unlinked again) and leaves the same store and still no file. When the file is
  there and cannot be deleted, clearing throws.
\<close>

theorem clear_idempotent:
  "(snapshot w = Absent \<or> writable w \<longrightarrow>
      (\<exists>w1 w2. clearCache w = Inr w1 \<and> entries (cache w1) = []
         \<and> NodeCache_get (cache w1) now k = None \<and> snapshot w1 = Absent
         \<and> clearCache w1 = Inr w2 \<and> cache w2 = cache w1 \<and> snapshot w2 = Absent))
   \<and> (snapshot w \<noteq> Absent \<and> \<not> writable w \<longrightarrow> clearCache w = Inl EACCES)"
  by (cases "snapshot w")
    (simp_all add: clearCache_def existsSync_def unlinkSync_def emit_def NodeCache_flushAll_def
      NodeCache_get_def Let_def)

text \<open>A populated store with a snapshot file that can be deleted; and an empty store
  without a file, on a file system that refuses every change.\<close>

theorem clear_idempotent_witness:
  "(case clearCache (cache_set 0 ''k'' example_payload
            (CachingProxy (Content (Stringified (JObj []))) True ())) of
      Inl error \<Rightarrow> False
    | Inr w1 \<Rightarrow>
        entries (cache w1) = [] \<and> snapshot w1 = Absent
        \<and> (case clearCache w1 of Inl error \<Rightarrow> False | Inr w2 \<Rightarrow> snapshot w2 = Absent))
   \<and> (case clearCache (CachingProxy Absent False ()) of
        Inl error \<Rightarrow> False
      | Inr w1 \<Rightarrow>
          entries (cache w1) = [] \<and> snapshot w1 = Absent
          \<and> (case clearCache w1 of Inl error \<Rightarrow> False | Inr w2 \<Rightarrow> snapshot w2 = Absent))"
proof -
  let ?w = "cache_set 0 ''k'' example_payload (CachingProxy (Content (Stringified (JObj []))) True ())"
  let ?v = "CachingProxy Absent False ()"
  have "snapshot ?w = Absent \<or> writable ?w"
    by (simp add: cache_set_def emit_def CachingProxy_def)
  moreover have "snapshot ?v = Absent \<or> writable ?v"
    by (simp add: CachingProxy_def)
  ultimately show ?thesis
    using clear_idempotent [of ?w 0 "''k''"] clear_idempotent [of ?v 0 "''k''"]
    by auto
qed

text \<open>As first stated, for every store and file, the property fails: a snapshot file that
  cannot be deleted makes clearing throw.\<close>

theorem clear_throws_on_undeletable_file:
  "clearCache (CachingProxy (Content (Stringified (JObj []))) False ()) = Inl EACCES"
  by (simp add: clearCache_def existsSync_def unlinkSync_def CachingProxy_def Let_def)




text \<open>
  C10. The falsy-payload edge. When the lookup gives nothing truthy (no entry, or an entry
  with a falsy value) and the origin answers the forwarded request with a 2xx status and a
  falsy body, the handler sends no reply, neither a payload nor an error, and changes
  nothing but the state of the origin: nothing is stored or written. And the handler
  replies with a HIT exactly when the lookup gives a truthy value: the test is on the
  value, not on the presence of an entry.
\<close>

theorem falsy_payload_edge:
  "(\<not> truthy_opt (NodeCache_get (cache w) now (generateCacheKey P r))
      \<and> URL_host P origin = Some h
      \<and> origin_server P (upstream w) (request_config origin r (headers r) h) = (Response s d, u1)
      \<and> 200 \<le> s \<and> s < 300 \<and> \<not> truthy d
    \<longrightarrow> handler P origin now r w =
          (None, emit (Forwarded (request_config origin r (headers r) h)) (w\<lparr>upstream := u1\<rparr>)))
   \<and> ((\<exists>c. fst (handler P origin now r w) =
              Some \<lparr>res_status = 200, res_x_cache = Some ''HIT'', res_body = c\<rparr>)
        = truthy_opt (NodeCache_get (cache w) now (generateCacheKey P r)))"
proof (rule conjI)
  show "\<not> truthy_opt (NodeCache_get (cache w) now (generateCacheKey P r))
      \<and> URL_host P origin = Some h
      \<and> origin_server P (upstream w) (request_config origin r (headers r) h) = (Response s d, u1)
      \<and> 200 \<le> s \<and> s < 300 \<and> \<not> truthy d
    \<longrightarrow> handler P origin now r w =
          (None, emit (Forwarded (request_config origin r (headers r) h)) (w\<lparr>upstream := u1\<rparr>))"
  proof (intro impI, elim conjE)
    assume miss: "\<not> truthy_opt (NodeCache_get (cache w) now (generateCacheKey P r))"
      and host: "URL_host P origin = Some h"
      and first: "origin_server P (upstream w) (request_config origin r (headers r) h) =
          (Response s d, u1)"
      and s: "200 \<le> s" "s < 300" and d: "\<not> truthy d"
    have "settle validateStatus (Response s d) = Inr \<lparr>status = s, data = d\<rparr>"
      using s by (simp add: settle_def validateStatus_def)
    from handler_first_falsy [OF miss host first this] d s
    show "handler P origin now r w =
          (None, emit (Forwarded (request_config origin r (headers r) h)) (w\<lparr>upstream := u1\<rparr>))"
      by simp
  qed
next
  show "(\<exists>c. fst (handler P origin now r w) =
              Some \<lparr>res_status = 200, res_x_cache = Some ''HIT'', res_body = c\<rparr>)
        = truthy_opt (NodeCache_get (cache w) now (generateCacheKey P r))"
    by (cases rule: handler_cases [of w now P r origin]) (simp_all add: res_json_def)
qed

text \<open>An empty body with status 200 on an empty store; and a 204 without a body on a
  store that holds \<^verbatim>\<open>0\<close> under the key of the request.\<close>

theorem falsy_payload_edge_witness:
  "handler example_platform ''http://origin.test'' 0 example_request
       (CachingProxy Absent True [Response 200 (JStr [])])
     = (None,
        emit (Forwarded (request_config ''http://origin.test'' example_request
                 (headers example_request) ''origin.test''))
          (CachingProxy Absent True []))
   \<and> handler example_platform ''http://origin.test'' 0 example_request
       (cache_set 0 (generateCacheKey example_platform example_request) (JNum 0)
          (CachingProxy Absent True [Response 204 JNull]))
     = (None,
        emit (Forwarded (request_config ''http://origin.test'' example_request
                 (headers example_request) ''origin.test''))
          (cache_set 0 (generateCacheKey example_platform example_request) (JNum 0)
             (CachingProxy Absent True [])))"
proof -
  let ?k = "generateCacheKey example_platform example_request"
  let ?w1 = "CachingProxy Absent True [Response 200 (JStr [])]"
  let ?w2 = "cache_set 0 ?k (JNum 0) (CachingProxy Absent True [Response 204 JNull])"
  have "\<not> truthy_opt (NodeCache_get (cache ?w1) 0 ?k)
      \<and> URL_host example_platform ''http://origin.test'' = Some ''origin.test''
      \<and> origin_server example_platform (upstream ?w1)
           (request_config ''http://origin.test'' example_request (headers example_request)
              ''origin.test'')
          = (Response 200 (JStr []), [])
      \<and> (200::nat) \<le> 200 \<and> (200::nat) < 300 \<and> \<not> truthy (JStr [])"
    by (simp add: example_host sel_CachingProxy example_origin get_new_NodeCache)
  moreover have "\<not> truthy_opt (NodeCache_get (cache ?w2) 0 ?k)
      \<and> URL_host example_platform ''http://origin.test'' = Some ''origin.test''
      \<and> origin_server example_platform (upstream ?w2)
           (request_config ''http://origin.test'' example_request (headers example_request)
              ''origin.test'')
          = (Response 204 JNull, [])
      \<and> (200::nat) \<le> 204 \<and> (204::nat) < 300 \<and> \<not> truthy JNull"
    by (simp add: example_host sel_CachingProxy example_origin world_ops get_set_same
        expiry_def CachingProxy_def new_NodeCache_def)
  ultimately show ?thesis
    using falsy_payload_edge [of ?w1 0 example_platform example_request "''http://origin.test''"
        "''origin.test''" 200 "JStr []" "[]"]
      falsy_payload_edge [of ?w2 0 example_platform example_request "''http://origin.test''"
        "''origin.test''" 204 JNull "[]"]
    by (simp add: world_ops CachingProxy_def)
qed

end
